theory Spec2Isabelle
  imports Main
begin

section \<open>Python values and the primitives the handlers use\<close>

text \<open>
  The handlers are Python functions from dictionaries to dictionaries. The model keeps
  the dynamic typing where the source relies on it: the reply of the storage client is a
  dictionary of untyped values, and every subscript, iteration, method call and
  serialisation of such a value can raise, as it does in Python.
\<close>

subsection \<open>Decimal formatting\<close>

text \<open>\<open>to_decimal n\<close> is \<^verbatim>\<open>str(n)\<close> for a non-negative integer.\<close>

function to_decimal :: "int \<Rightarrow> string" where
  "to_decimal n =
     (if n < 10 then [''0123456789'' ! nat n]
      else to_decimal (n div 10) @ [''0123456789'' ! nat (n mod 10)])"
  by pat_completeness auto
termination
  by (relation "measure nat") auto

declare to_decimal.simps [simp del]

text \<open>\<open>zero_padded w n\<close> is \<^verbatim>\<open>"%0wd" % n\<close> for a non-negative integer.\<close>

definition zero_padded :: "nat \<Rightarrow> int \<Rightarrow> string" where
  "zero_padded w n =
     replicate (w - length (to_decimal n)) (CHR ''0'') @ to_decimal n"

subsection \<open>datetime and its isoformat method\<close>

text \<open>
  A \<^verbatim>\<open>datetime.datetime\<close> value. \<open>utcoffset\<close> is \<open>None\<close> for a naive value and
  otherwise the offset of its time zone from UTC in microseconds.
\<close>

record datetime =
  year :: int
  month :: int
  day :: int
  hour :: int
  minute :: int
  second :: int
  microsecond :: int
  utcoffset :: "int option"

text \<open>
  \<^verbatim>\<open>datetime.isoformat()\<close> with its default arguments: the date, the letter T, the time with
  microseconds only when they are not zero, and the offset of an aware value.
\<close>

definition format_time :: "datetime \<Rightarrow> string" where
  "format_time d =
     zero_padded 2 (hour d) @ '':'' @ zero_padded 2 (minute d) @ '':'' @
     zero_padded 2 (second d) @
     (if microsecond d = 0 then [] else ''.'' @ zero_padded 6 (microsecond d))"

definition format_offset :: "int option \<Rightarrow> string" where
  "format_offset off =
     (case off of
        None \<Rightarrow> []
      | Some us \<Rightarrow>
          (let sign = (if us < 0 then ''-'' else ''+'');
               a = \<bar>us\<bar>;
               hh = a div 3600000000;
               r = a mod 3600000000;
               mm = r div 60000000;
               ss = r mod 60000000
           in sign @ zero_padded 2 hh @ '':'' @ zero_padded 2 mm @
              (if ss = 0 then []
               else '':'' @ zero_padded 2 (ss div 1000000) @
                    (if ss mod 1000000 = 0 then []
                     else ''.'' @ zero_padded 6 (ss mod 1000000)))))"

definition isoformat :: "datetime \<Rightarrow> string" where
  "isoformat d =
     zero_padded 4 (year d) @ ''-'' @ zero_padded 2 (month d) @ ''-'' @
     zero_padded 2 (day d) @ ''T'' @ format_time d @ format_offset (utcoffset d)"

subsection \<open>Values, exceptions, dictionaries\<close>

datatype pyval =
    PyNone
  | PyBool bool
  | PyInt int
  | PyStr string
  | PyDatetime datetime
  | PyList "pyval list"
  | PyDict "(string \<times> pyval) list"

type_synonym py_dict = "(string \<times> pyval) list"

text \<open>
  An exception that is an instance of \<^verbatim>\<open>Exception\<close>. \<open>ClientError code message\<close> is
  botocore's \<^verbatim>\<open>ClientError\<close> (or a subclass of it), the structured error of the provider:
  \<open>code\<close> and \<open>message\<close> are the strings the handler reads as
  \<^verbatim>\<open>e.response['Error']['Code']\<close> and \<^verbatim>\<open>e.response['Error']['Message']\<close>.
  \<open>OtherException cls description\<close> is an instance of any other class \<open>cls\<close>, with
  \<open>description\<close> the value of \<^verbatim>\<open>str(e)\<close>.
\<close>

datatype pyexn =
    ClientError string string
  | OtherException string string

definition quoted :: "string \<Rightarrow> string" where
  "quoted s = CHR 0x27 # s @ [CHR 0x27]"

text \<open>The name CPython prints for the type of a value.\<close>

fun type_name :: "pyval \<Rightarrow> string" where
  "type_name PyNone = ''NoneType''"
| "type_name (PyBool b) = ''bool''"
| "type_name (PyInt i) = ''int''"
| "type_name (PyStr s) = ''str''"
| "type_name (PyDatetime d) = ''datetime.datetime''"
| "type_name (PyList xs) = ''list''"
| "type_name (PyDict kvs) = ''dict''"

text \<open>
  \<^verbatim>\<open>v[k]\<close> for a string key \<open>k\<close>: a dictionary looks the key up and raises \<^verbatim>\<open>KeyError\<close>
  when it is missing; every other value raises \<^verbatim>\<open>TypeError\<close> (messages of CPython 3.12).
\<close>

fun getitem :: "pyval \<Rightarrow> string \<Rightarrow> pyexn + pyval" where
  "getitem (PyDict kvs) k =
     (case map_of kvs k of
        Some v \<Rightarrow> Inr v
      | None \<Rightarrow> Inl (OtherException ''KeyError'' (quoted k)))"
| "getitem (PyList xs) k =
     Inl (OtherException ''TypeError'' ''list indices must be integers or slices, not str'')"
| "getitem (PyStr s) k =
     Inl (OtherException ''TypeError'' (''string indices must be integers, not '' @ quoted ''str''))"
| "getitem v k =
     Inl (OtherException ''TypeError'' (quoted (type_name v) @ '' object is not subscriptable''))"

text \<open>
  The elements a \<^verbatim>\<open>for\<close> loop visits: the items of a list, the keys of a dictionary,
  the characters of a string; any other value is not iterable.
\<close>

fun iterate :: "pyval \<Rightarrow> pyexn + pyval list" where
  "iterate (PyList xs) = Inr xs"
| "iterate (PyDict kvs) = Inr (map (\<lambda>kv. PyStr (fst kv)) kvs)"
| "iterate (PyStr s) = Inr (map (\<lambda>c. PyStr [c]) s)"
| "iterate v =
     Inl (OtherException ''TypeError'' (quoted (type_name v) @ '' object is not iterable''))"

text \<open>\<^verbatim>\<open>v.isoformat()\<close>: only a datetime has the method.\<close>

fun call_isoformat :: "pyval \<Rightarrow> pyexn + pyval" where
  "call_isoformat (PyDatetime d) = Inr (PyStr (isoformat d))"
| "call_isoformat v =
     Inl (OtherException ''AttributeError''
            (quoted (type_name v) @ '' object has no attribute '' @ quoted ''isoformat''))"

subsection \<open>json.dumps\<close>

text \<open>
  \<^verbatim>\<open>json.dumps\<close> serialises \<^verbatim>\<open>None\<close>, booleans, integers, strings, lists and
  dictionaries with string keys, and raises \<^verbatim>\<open>TypeError\<close> on anything else, here a
  datetime. The model keeps the serialised text as the document it denotes (the tests read
  it back with \<^verbatim>\<open>json.loads\<close>) and models whether the serialisation succeeds.
\<close>

fun json_serializable :: "pyval \<Rightarrow> bool" where
  "json_serializable (PyDatetime d) = False"
| "json_serializable (PyList xs) = list_all json_serializable xs"
| "json_serializable (PyDict kvs) = list_all (\<lambda>kv. json_serializable (snd kv)) kvs"
| "json_serializable v = True"

definition json_dumps :: "py_dict \<Rightarrow> pyexn + py_dict" where
  "json_dumps doc =
     (if json_serializable (PyDict doc) then Inr doc
      else Inl (OtherException ''TypeError''
                  ''Object of type datetime is not JSON serializable''))"

section \<open>The bucket lister: src/lambda_function.py\<close>

subsection \<open>Inputs, the storage client, the response\<close>

text \<open>
  The event is the request, a dictionary whose fields are strings (the Request of the
  specification, the \<^verbatim>\<open>Lambda event object\<close> of the docstring); \<open>environ\<close> is
  \<^verbatim>\<open>os.environ\<close>. A field or variable that is absent is \<open>None\<close>, as \<^verbatim>\<open>dict.get\<close>
  returns it.
\<close>

type_synonym event = "string \<rightharpoonup> string"
type_synonym environ = "string \<rightharpoonup> string"

text \<open>
  The invocation context: an object with attributes. The bucket lister never reads it; a
  falsy context (\<^verbatim>\<open>None\<close>, or the \<^verbatim>\<open>{}\<close> of the tests) is \<open>None\<close>.
\<close>

record lambda_context =
  class_name :: string
  attributes :: "(string \<times> string) list"

text \<open>
  \<open>s3_client\<close> stands for the object \<^verbatim>\<open>boto3.client('s3')\<close> returns (line 40; the tests
  replace it by a mock): its \<^verbatim>\<open>list_objects_v2\<close> method takes the keyword arguments of the
  call and either returns a response dictionary or raises. The construction of the object
  is part of \<open>invoke_lambda_handler\<close> below.
\<close>

type_synonym s3_client = "py_dict \<Rightarrow> pyexn + py_dict"

text \<open>
  The dictionary a handler returns. \<open>headers\<close> is \<open>None\<close> when the dictionary has no
  \<^verbatim>\<open>headers\<close> key; \<open>body\<close> is the document that \<^verbatim>\<open>json.dumps\<close> serialised.
\<close>

record response =
  statusCode :: int
  headers :: "(string \<times> string) list option"
  body :: py_dict

subsection \<open>Resolving the bucket name (line 28)\<close>

text \<open>Truth value of \<^verbatim>\<open>None\<close> or a string: only a non-empty string is true.\<close>

definition truthy :: "string option \<Rightarrow> bool" where
  "truthy v = (case v of None \<Rightarrow> False | Some s \<Rightarrow> s \<noteq> [])"

text \<open>\<^verbatim>\<open>a or b\<close>: the left operand when it is true, otherwise the right one.\<close>

definition py_or :: "string option \<Rightarrow> string option \<Rightarrow> string option" where
  "py_or a b = (if truthy a then a else b)"

definition bucket_name :: "event \<Rightarrow> environ \<Rightarrow> string option" where
  "bucket_name event environ =
     py_or (event ''bucket_name'') (environ ''S3_BUCKET_NAME'')"

subsection \<open>The try block (lines 43 to 72)\<close>

text \<open>The keyword arguments of the one call to \<^verbatim>\<open>list_objects_v2\<close> (lines 45 to 48).\<close>

definition list_objects_v2_kwargs :: "string \<Rightarrow> py_dict" where
  "list_objects_v2_kwargs b = [(''Bucket'', PyStr b), (''MaxKeys'', PyInt 10)]"

text \<open>
  The dictionary appended for one entry (lines 54 to 58). The three subscripts and the
  method call are evaluated in this order, and the first that raises ends the evaluation.
\<close>

definition object_summary :: "pyval \<Rightarrow> pyexn + pyval" where
  "object_summary obj =
     (case getitem obj ''Key'' of
        Inl e \<Rightarrow> Inl e
      | Inr k \<Rightarrow>
     (case getitem obj ''Size'' of
        Inl e \<Rightarrow> Inl e
      | Inr sz \<Rightarrow>
     (case getitem obj ''LastModified'' of
        Inl e \<Rightarrow> Inl e
      | Inr lm \<Rightarrow>
     (case call_isoformat lm of
        Inl e \<Rightarrow> Inl e
      | Inr last_modified \<Rightarrow>
          Inr (PyDict [(''key'', k), (''size'', sz), (''last_modified'', last_modified)])))))"

text \<open>The \<^verbatim>\<open>for\<close> loop of lines 53 to 58, appending to \<open>objects\<close>.\<close>

fun append_objects :: "pyval list \<Rightarrow> pyval list \<Rightarrow> pyexn + pyval list" where
  "append_objects objects [] = Inr objects"
| "append_objects objects (obj # rest) =
     (case object_summary obj of
        Inl e \<Rightarrow> Inl e
      | Inr s \<Rightarrow> append_objects (objects @ [s]) rest)"

text \<open>Lines 51 to 58: \<open>objects\<close> stays empty when the response has no \<^verbatim>\<open>Contents\<close>.\<close>

definition extract_objects :: "py_dict \<Rightarrow> pyexn + pyval list" where
  "extract_objects resp =
     (case map_of resp ''Contents'' of
        None \<Rightarrow> Inr []
      | Some contents \<Rightarrow>
          (case iterate contents of
             Inl e \<Rightarrow> Inl e
           | Inr objs \<Rightarrow> append_objects [] objs))"

definition success_message :: "string \<Rightarrow> string" where
  "success_message b = ''Hello World! Successfully read from S3 bucket: '' @ b"

text \<open>The whole try block for the resolved bucket \<open>b\<close>.\<close>

definition try_block :: "string \<Rightarrow> s3_client \<Rightarrow> pyexn + response" where
  "try_block b client =
     (case client (list_objects_v2_kwargs b) of
        Inl e \<Rightarrow> Inl e
      | Inr resp \<Rightarrow>
     (case extract_objects resp of
        Inl e \<Rightarrow> Inl e
      | Inr objects \<Rightarrow>
     (case json_dumps
             [(''message'', PyStr (success_message b)),
              (''bucket'', PyStr b),
              (''object_count'', PyInt (int (length objects))),
              (''objects'', PyList objects),
              (''hello'', PyStr ''world'')] of
        Inl e \<Rightarrow> Inl e
      | Inr doc \<Rightarrow> Inr \<lparr>statusCode = 200, headers = None, body = doc\<rparr>)))"

subsection \<open>The three other returns\<close>

text \<open>Lines 31 to 37.\<close>

definition no_bucket_response :: response where
  "no_bucket_response =
     \<lparr>statusCode = 400, headers = None,
      body = [(''message'', PyStr ''Error: No bucket name provided. Please specify bucket_name in event or S3_BUCKET_NAME environment variable.''),
              (''hello'', PyStr ''world'')]\<rparr>"

text \<open>Lines 74 to 86, and lines 87 to 97.\<close>

fun except_clauses :: "pyexn \<Rightarrow> pyexn + response" where
  "except_clauses (ClientError error_code error_message) =
     Inr \<lparr>statusCode = 500, headers = None,
          body = [(''message'', PyStr (''Error reading from S3 bucket: '' @ error_code)),
                  (''error'', PyStr error_message),
                  (''hello'', PyStr ''world'')]\<rparr>"
| "except_clauses (OtherException cls description) =
     Inr \<lparr>statusCode = 500, headers = None,
          body = [(''message'', PyStr ''Unexpected error occurred''),
                  (''error'', PyStr description),
                  (''hello'', PyStr ''world'')]\<rparr>"

subsection \<open>The handler\<close>

text \<open>
  The handler returns its result, or the exception that escapes it, together with the
  keyword arguments of every call it made to the storage client, in order.
  \<^verbatim>\<open>not bucket_name\<close> holds for \<^verbatim>\<open>None\<close> and for the empty string. Printing to the log
  is not part of the result and is left out. Here the event is a dictionary and the client
  is the one line 40 constructed.
\<close>

definition lambda_handler ::
  "event \<Rightarrow> lambda_context option \<Rightarrow> environ \<Rightarrow> s3_client \<Rightarrow>
   (pyexn + response) \<times> py_dict list" where
  "lambda_handler event context environ client =
     (case bucket_name event environ of
        None \<Rightarrow> (Inr no_bucket_response, [])
      | Some b \<Rightarrow>
          if b = [] then (Inr no_bucket_response, [])
          else
            ((case try_block b client of
                Inr r \<Rightarrow> Inr r
              | Inl e \<Rightarrow> except_clauses e),
             [list_objects_v2_kwargs b]))"

subsection \<open>The handler on any payload, with the construction of the client\<close>





section \<open>The hello-world handler: src/lambda/lambda_function.py\<close>

text \<open>Reading an attribute of the context raises \<^verbatim>\<open>AttributeError\<close> when it has none.\<close>

definition getattr :: "lambda_context \<Rightarrow> string \<Rightarrow> pyexn + string" where
  "getattr c name =
     (case map_of (attributes c) name of
        Some v \<Rightarrow> Inr v
      | None \<Rightarrow>
          Inl (OtherException ''AttributeError''
                 (quoted (class_name c) @ '' object has no attribute '' @ quoted name)))"

text \<open>
  \<open>now\<close> is the value of \<^verbatim>\<open>datetime.now(timezone.utc)\<close>. This handler has no
  \<^verbatim>\<open>try\<close>: an exception raised while the body is built escapes. The body is built in
  the order of the dictionary display: message, timestamp, function name, request id.
  Logging is left out.
\<close>

definition hello_lambda_handler ::
  "event \<Rightarrow> lambda_context option \<Rightarrow> datetime \<Rightarrow> pyexn + response" where
  "hello_lambda_handler event context now =
     (let current_time = isoformat now;
          name = (case event ''name'' of Some n \<Rightarrow> n | None \<Rightarrow> ''World'');
          message = ''Hello, '' @ name @ ''!''
      in
        (case (case context of
                 Some c \<Rightarrow> getattr c ''function_name''
               | None \<Rightarrow> Inr ''local'') of
           Inl e \<Rightarrow> Inl e
         | Inr function_name \<Rightarrow>
        (case (case context of
                 Some c \<Rightarrow> getattr c ''request_id''
               | None \<Rightarrow> Inr ''N/A'') of
           Inl e \<Rightarrow> Inl e
         | Inr request_id \<Rightarrow>
             Inr \<lparr>statusCode = 200,
                  headers = Some [(''Content-Type'', ''application/json''),
                                  (''Access-Control-Allow-Origin'', ''*'')],
                  body = [(''message'', PyStr message),
                          (''timestamp'', PyStr current_time),
                          (''function_name'', PyStr function_name),
                          (''request_id'', PyStr request_id)]\<rparr>)))"

section \<open>Readings of replies and responses\<close>

text \<open>
  The specification speaks of the reply of the storage provider as an ordered collection
  of (key, size, last-modified) tuples. \<open>summary_of\<close> reads one entry of a reply that
  way, whatever other fields the entry has, and \<open>provider_entries\<close> reads the whole
  reply: no entries when there is no \<^verbatim>\<open>Contents\<close>, otherwise the tuples of the list.
\<close>

definition summary_of :: "pyval \<Rightarrow> (string \<times> int \<times> datetime) option" where
  "summary_of obj =
     (case obj of
        PyDict kvs \<Rightarrow>
          (case (map_of kvs ''Key'', map_of kvs ''Size'', map_of kvs ''LastModified'') of
             (Some (PyStr k), Some (PyInt n), Some (PyDatetime d)) \<Rightarrow> Some (k, n, d)
           | _ \<Rightarrow> None)
      | _ \<Rightarrow> None)"

definition provider_entries :: "py_dict \<Rightarrow> (string \<times> int \<times> datetime) list option" where
  "provider_entries resp =
     (case map_of resp ''Contents'' of
        None \<Rightarrow> Some []
      | Some (PyList objs) \<Rightarrow> those (map summary_of objs)
      | Some _ \<Rightarrow> None)"

text \<open>The ObjectSummary of the specification for one tuple.\<close>

definition object_summary_of :: "string \<times> int \<times> datetime \<Rightarrow> pyval" where
  "object_summary_of t =
     (case t of (k, n, d) \<Rightarrow>
        PyDict [(''key'', PyStr k), (''size'', PyInt n),
                (''last_modified'', PyStr (isoformat d))])"

text \<open>The number of entries of a reply that the loop of the handler visits.\<close>

definition reply_entries :: "py_dict \<Rightarrow> nat" where
  "reply_entries resp =
     (case map_of resp ''Contents'' of
        None \<Rightarrow> 0
      | Some contents \<Rightarrow>
          (case iterate contents of Inl e \<Rightarrow> 0 | Inr objs \<Rightarrow> length objs))"

text \<open>
  The specification's rule for the bucket name: the request's \<^verbatim>\<open>bucket_name\<close> if present
  and non-empty, otherwise the default of the environment.
\<close>

definition requested_or_default :: "event \<Rightarrow> environ \<Rightarrow> string option" where
  "requested_or_default event environ =
     (case event ''bucket_name'' of
        Some b \<Rightarrow> if b \<noteq> [] then Some b else environ ''S3_BUCKET_NAME''
      | None \<Rightarrow> environ ''S3_BUCKET_NAME'')"

text \<open>A source of the bucket name yields no value when it is absent or empty.\<close>

definition no_value :: "string option \<Rightarrow> bool" where
  "no_value v = (v = None \<or> v = Some [])"

text \<open>Fields of the body, headers, and the length of \<^verbatim>\<open>objects\<close> of a result.\<close>

definition response_field :: "string \<Rightarrow> pyexn + response \<Rightarrow> pyval option" where
  "response_field k res = (case res of Inl e \<Rightarrow> None | Inr r \<Rightarrow> map_of (body r) k)"

definition response_header :: "string \<Rightarrow> pyexn + response \<Rightarrow> string option" where
  "response_header k res =
     (case res of
        Inl e \<Rightarrow> None
      | Inr r \<Rightarrow> (case headers r of None \<Rightarrow> None | Some hs \<Rightarrow> map_of hs k))"

definition objects_returned :: "pyexn + response \<Rightarrow> nat" where
  "objects_returned res =
     (case response_field ''objects'' res of
        Some (PyList objs) \<Rightarrow> length objs
      | _ \<Rightarrow> 0)"

subsection \<open>Concrete inputs\<close>

text \<open>The scenario of the test suite: two files in \<^verbatim>\<open>test-bucket\<close>.\<close>

definition noon :: "int \<Rightarrow> datetime" where
  "noon d = \<lparr>year = 2024, month = 1, day = d, hour = 12, minute = 0, second = 0,
             microsecond = 0, utcoffset = None\<rparr>"

definition s3_entry :: "string \<Rightarrow> int \<Rightarrow> datetime \<Rightarrow> pyval" where
  "s3_entry k n d =
     PyDict [(''Key'', PyStr k), (''LastModified'', PyDatetime d),
             (''ETag'', PyStr ''d41d8cd98f00b204e9800998ecf8427e''), (''Size'', PyInt n),
             (''StorageClass'', PyStr ''STANDARD'')]"

definition two_files :: s3_client where
  "two_files kwargs =
     Inr [(''IsTruncated'', PyBool False),
          (''Contents'', PyList [s3_entry ''file1.txt'' 1024 (noon 1),
                                 s3_entry ''file2.txt'' 2048 (noon 2)]),
          (''Name'', PyStr ''test-bucket'')]"

text \<open>A client that honours \<^verbatim>\<open>MaxKeys\<close>: the first entries of a bucket of twelve.\<close>

definition first_of_twelve :: s3_client where
  "first_of_twelve kwargs =
     (case map_of kwargs ''MaxKeys'' of
        Some (PyInt n) \<Rightarrow>
          Inr [(''Contents'',
                PyList (take (nat n)
                  (map (\<lambda>i. s3_entry (''file'' @ to_decimal i) (100 * i) (noon i)) [1..12])))]
      | _ \<Rightarrow> Inl (OtherException ''ParamValidationError'' ''Parameter validation failed''))"

definition no_such_bucket :: s3_client where
  "no_such_bucket kwargs =
     Inl (ClientError ''NoSuchBucket'' ''The specified bucket does not exist'')"

definition unexpected_error :: s3_client where
  "unexpected_error kwargs = Inl (OtherException ''Exception'' ''Unexpected error'')"


definition mock_context :: lambda_context where
  "mock_context =
     \<lparr>class_name = ''MockContext'',
      attributes = [(''function_name'', ''HelloWorldLambda''),
                    (''request_id'', ''local-test-request-id'')]\<rparr>"

section \<open>The shape of every result\<close>

lemma except_clauses_returns:
  "\<exists>m d. except_clauses e =
     Inr \<lparr>statusCode = 500, headers = None,
          body = [(''message'', PyStr m), (''error'', PyStr d), (''hello'', PyStr ''world'')]\<rparr>"
  by (cases e) simp_all

lemma try_block_returns:
  assumes "try_block b client = Inr r"
  shows "\<exists>objects. r =
     \<lparr>statusCode = 200, headers = None,
      body = [(''message'', PyStr (success_message b)), (''bucket'', PyStr b),
              (''object_count'', PyInt (int (length objects))),
              (''objects'', PyList objects), (''hello'', PyStr ''world'')]\<rparr>"
  using assms
  by (auto simp: try_block_def json_dumps_def split: sum.splits if_splits)

lemma lambda_handler_unresolved:
  assumes "\<not> truthy (bucket_name event environ)"
  shows "lambda_handler event ctx environ client = (Inr no_bucket_response, [])"
  using assms by (auto simp: lambda_handler_def truthy_def split: option.splits)

lemma lambda_handler_resolved:
  assumes "bucket_name event environ = Some b" and "b \<noteq> []"
  shows "lambda_handler event ctx environ client =
     ((case try_block b client of Inr r \<Rightarrow> Inr r | Inl e \<Rightarrow> except_clauses e),
      [list_objects_v2_kwargs b])"
  using assms by (simp add: lambda_handler_def)

lemma truthy_cases: "truthy v \<Longrightarrow> \<exists>b. v = Some b \<and> b \<noteq> []"
  by (cases v) (simp_all add: truthy_def)

lemma lambda_handler_shape:
  "\<exists>r. fst (lambda_handler event ctx environ client) = Inr r \<and> headers r = None \<and>
     ((statusCode r = 400 \<and> map fst (body r) = [''message'', ''hello'']) \<or>
      (statusCode r = 200 \<and>
         map fst (body r) = [''message'', ''bucket'', ''object_count'', ''objects'', ''hello'']) \<or>
      (statusCode r = 500 \<and> map fst (body r) = [''message'', ''error'', ''hello''])) \<and>
     map_of (body r) ''hello'' = Some (PyStr ''world'')"
proof (cases "truthy (bucket_name event environ)")
  case False
  then show ?thesis
    by (simp add: lambda_handler_unresolved no_bucket_response_def)
next
  case True
  then obtain b where b: "bucket_name event environ = Some b" "b \<noteq> []"
    using truthy_cases by blast
  show ?thesis
  proof (cases "try_block b client")
    case (Inl e)
    obtain m d where "except_clauses e =
       Inr \<lparr>statusCode = 500, headers = None,
            body = [(''message'', PyStr m), (''error'', PyStr d), (''hello'', PyStr ''world'')]\<rparr>"
      using except_clauses_returns by blast
    with Inl b show ?thesis
      by (simp add: lambda_handler_resolved)
  next
    case (Inr r)
    then obtain objects where "r =
     \<lparr>statusCode = 200, headers = None,
      body = [(''message'', PyStr (success_message b)), (''bucket'', PyStr b),
              (''object_count'', PyInt (int (length objects))),
              (''objects'', PyList objects), (''hello'', PyStr ''world'')]\<rparr>"
      using try_block_returns by blast
    with Inr b show ?thesis
      by (simp add: lambda_handler_resolved)
  qed
qed

section \<open>A well-formed reply\<close>

lemma object_summary_of_entry:
  "summary_of obj = Some t \<Longrightarrow> object_summary obj = Inr (object_summary_of t)"
  by (auto simp: summary_of_def object_summary_def object_summary_of_def
           split: pyval.splits option.splits)

lemma append_objects_entries:
  "those (map summary_of objs) = Some entries \<Longrightarrow>
   append_objects acc objs = Inr (acc @ map object_summary_of entries)"
proof (induction objs arbitrary: acc entries)
  case Nil
  then show ?case by simp
next
  case (Cons obj objs)
  from Cons.prems obtain t ts where
    t: "summary_of obj = Some t" and ts: "those (map summary_of objs) = Some ts"
    and e: "entries = t # ts"
    by (auto split: option.splits)
  from Cons.IH [OF ts] t e show ?case
    by (simp add: object_summary_of_entry)
qed

lemma extract_objects_entries:
  "provider_entries resp = Some entries \<Longrightarrow>
   extract_objects resp = Inr (map object_summary_of entries)"
  using append_objects_entries [of _ entries "[]"]
  by (auto simp: provider_entries_def extract_objects_def split: option.splits pyval.splits)

lemma json_serializable_summaries:
  "list_all json_serializable (map object_summary_of entries)"
  by (induction entries) (auto simp: object_summary_of_def)

subsection \<open>Evaluated timestamps\<close>

lemma isoformat_noon_1: "isoformat (noon 1) = ''2024-01-01T12:00:00''" by code_simp
lemma isoformat_noon_2: "isoformat (noon 2) = ''2024-01-02T12:00:00''" by code_simp

section \<open>Resolution of the bucket name\<close>

lemma bucket_name_requested_or_default:
  "bucket_name event environ = requested_or_default event environ"
  by (simp add: bucket_name_def requested_or_default_def py_or_def truthy_def
           split: option.splits)

lemma truthy_bucket_name:
  "truthy (bucket_name event environ) =
     (\<not> (no_value (event ''bucket_name'') \<and> no_value (environ ''S3_BUCKET_NAME'')))"
  by (auto simp: bucket_name_def py_or_def truthy_def no_value_def split: option.splits)

lemma resolved_status:
  assumes "bucket_name event environ = Some b" and "b \<noteq> []"
  shows "\<exists>r. lambda_handler event ctx environ client = (Inr r, [list_objects_v2_kwargs b]) \<and>
             statusCode r \<noteq> 400"
proof (cases "try_block b client")
  case (Inl e)
  with assms except_clauses_returns [of e] show ?thesis
    by (auto simp: lambda_handler_resolved)
next
  case (Inr r)
  with assms try_block_returns [OF Inr] show ?thesis
    by (auto simp: lambda_handler_resolved)
qed

section \<open>Failures of the list call\<close>

lemma try_block_client_raises:
  "client (list_objects_v2_kwargs b) = Inl e \<Longrightarrow> try_block b client = Inl e"
  by (simp add: try_block_def)

text \<open>
  Whatever is raised while the reply is read and the body serialised is not a
  \<open>ClientError\<close>: the first except clause answers the storage client only, and a
  malformed reply is answered by the second.
\<close>

lemma getitem_raises: "getitem v k = Inl e \<Longrightarrow> \<exists>cls d. e = OtherException cls d"
  by (cases v) (auto split: option.splits)

lemma iterate_raises: "iterate v = Inl e \<Longrightarrow> \<exists>cls d. e = OtherException cls d"
  by (cases v) auto

lemma call_isoformat_raises: "call_isoformat v = Inl e \<Longrightarrow> \<exists>cls d. e = OtherException cls d"
  by (cases v) auto

lemma object_summary_raises:
  "object_summary obj = Inl e \<Longrightarrow> \<exists>cls d. e = OtherException cls d"
  by (auto simp: object_summary_def split: sum.splits
           dest: getitem_raises call_isoformat_raises)

lemma append_objects_raises:
  "append_objects acc objs = Inl e \<Longrightarrow> \<exists>cls d. e = OtherException cls d"
proof (induction objs arbitrary: acc)
  case Nil
  then show ?case by simp
next
  case (Cons obj objs)
  then show ?case
    by (auto split: sum.splits dest: object_summary_raises)
qed

lemma extract_objects_raises:
  "extract_objects resp = Inl e \<Longrightarrow> \<exists>cls d. e = OtherException cls d"
  by (auto simp: extract_objects_def split: option.splits sum.splits
           dest: iterate_raises append_objects_raises)

lemma try_block_raises:
  assumes "try_block b client = Inl e"
  shows "client (list_objects_v2_kwargs b) = Inl e \<or> (\<exists>cls d. e = OtherException cls d)"
  using assms
  by (auto simp: try_block_def json_dumps_def split: sum.splits if_splits
           dest: extract_objects_raises)

lemma malformed_reply:
  "lambda_handler [''bucket_name'' \<mapsto> ''test-bucket''] None Map.empty
     (\<lambda>kwargs. Inr [(''Contents'', PyList [PyDict [(''Key'', PyStr ''file1.txt'')]])]) =
   (Inr \<lparr>statusCode = 500, headers = None,
         body = [(''message'', PyStr ''Unexpected error occurred''),
                 (''error'', PyStr (quoted ''Size'')),
                 (''hello'', PyStr ''world'')]\<rparr>,
    [[(''Bucket'', PyStr ''test-bucket''), (''MaxKeys'', PyInt 10)]])"
  by code_simp

section \<open>The request and the number of objects\<close>

lemma append_objects_length:
  "append_objects acc objs = Inr out \<Longrightarrow> length out = length acc + length objs"
proof (induction objs arbitrary: acc)
  case Nil
  then show ?case by simp
next
  case (Cons obj objs)
  then show ?case
    by (fastforce split: sum.splits)
qed

lemma extract_objects_length:
  "extract_objects resp = Inr out \<Longrightarrow> length out = reply_entries resp"
  by (auto simp: extract_objects_def reply_entries_def
           split: option.splits sum.splits dest: append_objects_length)

lemma try_block_objects:
  assumes "try_block b client = Inr r" and "map_of (body r) ''objects'' = Some (PyList objs)"
  shows "\<exists>resp. client (list_objects_v2_kwargs b) = Inr resp \<and> length objs = reply_entries resp"
  using assms
  by (auto simp: try_block_def json_dumps_def split: sum.splits if_splits
           dest: extract_objects_length)

lemma except_clauses_no_objects:
  "except_clauses e = Inr r \<Longrightarrow> map_of (body r) ''objects'' = None"
  by (cases e) auto

lemma lambda_handler_calls:
  "snd (lambda_handler event ctx environ client) = [] \<or>
   (\<exists>b. snd (lambda_handler event ctx environ client) = [list_objects_v2_kwargs b])"
  by (auto simp: lambda_handler_def split: option.splits)

lemma lambda_handler_objects:
  assumes "response_field ''objects'' (fst (lambda_handler event ctx environ client)) = Some (PyList objs)"
  shows "\<exists>b resp. snd (lambda_handler event ctx environ client) = [list_objects_v2_kwargs b] \<and>
           client (list_objects_v2_kwargs b) = Inr resp \<and> length objs = reply_entries resp"
proof (cases "truthy (bucket_name event environ)")
  case False
  with assms show ?thesis
    by (simp add: lambda_handler_unresolved response_field_def no_bucket_response_def)
next
  case True
  then obtain b where b: "bucket_name event environ = Some b" "b \<noteq> []"
    using truthy_cases by blast
  show ?thesis
  proof (cases "try_block b client")
    case (Inl e)
    with assms b except_clauses_no_objects [of e] show ?thesis
      by (auto simp: lambda_handler_resolved response_field_def split: sum.splits)
  next
    case (Inr r)
    with assms b have "map_of (body r) ''objects'' = Some (PyList objs)"
      by (simp add: lambda_handler_resolved response_field_def)
    from try_block_objects [OF Inr this] b show ?thesis
      by (auto simp: lambda_handler_resolved)
  qed
qed

lemma first_of_twelve_honours:
  "\<forall>kwargs resp. first_of_twelve kwargs = Inr resp \<longrightarrow>
        map_of kwargs ''MaxKeys'' = Some (PyInt 10) \<longrightarrow> reply_entries resp \<le> 10"
  by (auto simp: first_of_twelve_def reply_entries_def)

section \<open>Headers and fields of the body\<close>

lemma hello_lambda_handler_headers:
  "hello_lambda_handler event ctx now = Inr r \<Longrightarrow>
   headers r = Some [(''Content-Type'', ''application/json''),
                     (''Access-Control-Allow-Origin'', ''*'')]"
  by (auto simp: hello_lambda_handler_def Let_def split: sum.splits)

lemma hello_lambda_handler_no_context:
  "\<exists>r. hello_lambda_handler event None now = Inr r"
  by (simp add: hello_lambda_handler_def Let_def)

lemma hello_lambda_handler_with_context:
  assumes "map_of (attributes c) ''function_name'' = Some f"
    and "map_of (attributes c) ''request_id'' = Some i"
  shows "\<exists>r. hello_lambda_handler event (Some c) now = Inr r"
  using assms by (simp add: hello_lambda_handler_def getattr_def Let_def)

lemma lambda_handler_no_headers:
  "\<exists>r. fst (lambda_handler event ctx environ client) = Inr r \<and> headers r = None"
  using lambda_handler_shape [of event ctx environ client] by (elim exE conjE) (rule exI, simp)

lemma manifest_fields_of_keys:
  assumes "(s = 400 \<and> ks = [''message'', ''hello'']) \<or>
      (s = 200 \<and> ks = [''message'', ''bucket'', ''object_count'', ''objects'', ''hello'']) \<or>
      (s = 500 \<and> ks = [''message'', ''error'', ''hello''])"
  shows "((s = (200::int)) =
        (''bucket'' \<in> set ks \<and> ''object_count'' \<in> set ks \<and> ''objects'' \<in> set ks)) \<and>
     (s \<noteq> 200 \<longrightarrow>
        ''bucket'' \<notin> set ks \<and> ''object_count'' \<notin> set ks \<and> ''objects'' \<notin> set ks) \<and>
     (s = 400 \<longrightarrow> ks = [''message'', ''hello'']) \<and>
     (s = 500 \<longrightarrow> ks = [''message'', ''error'', ''hello''])"
  using assms
proof (elim disjE conjE)
  assume "s = 400" "ks = [''message'', ''hello'']"
  then show ?thesis by simp
next
  assume "s = 200" "ks = [''message'', ''bucket'', ''object_count'', ''objects'', ''hello'']"
  then show ?thesis by simp
next
  assume "s = 500" "ks = [''message'', ''error'', ''hello'']"
  then show ?thesis by simp
qed

section \<open>The handler on a dictionary and on any payload\<close>




section \<open>Claims\<close>




text \<open>
  C6. On every return path the body of the response has the field \<^verbatim>\<open>hello\<close> with the
  value \<^verbatim>\<open>"world"\<close>.
\<close>

theorem hello_marker_on_every_return:
  "\<exists>r. fst (lambda_handler event ctx environ client) = Inr r \<and>
       map_of (body r) ''hello'' = Some (PyStr ''world'')"
  using lambda_handler_shape [of event ctx environ client] by fastforce

text \<open>
  C1. When the bucket name resolves to \<open>b\<close> and the list call returns a reply whose
  entries read as the tuples \<open>entries\<close> (any number of them, so also from none to ten),
  the handler returns status 200 with the resolved bucket, \<^verbatim>\<open>object_count\<close> the number
  of entries, and \<^verbatim>\<open>objects\<close> the summaries (key, size, ISO-8601 last_modified) of the
  entries in the order of the reply. A reply without \<^verbatim>\<open>Contents\<close> reads as no entries,
  and gives \<^verbatim>\<open>object_count\<close> 0 and an empty \<^verbatim>\<open>objects\<close> with status 200.
\<close>

theorem listing_success:
  assumes "bucket_name event environ = Some b" and "b \<noteq> []"
    and "client (list_objects_v2_kwargs b) = Inr resp"
    and "provider_entries resp = Some entries"
  shows "lambda_handler event ctx environ client =
    (Inr \<lparr>statusCode = 200, headers = None,
          body = [(''message'', PyStr (''Hello World! Successfully read from S3 bucket: '' @ b)),
                  (''bucket'', PyStr b),
                  (''object_count'', PyInt (int (length entries))),
                  (''objects'', PyList (map object_summary_of entries)),
                  (''hello'', PyStr ''world'')]\<rparr>,
     [[(''Bucket'', PyStr b), (''MaxKeys'', PyInt 10)]])"
proof -
  have "try_block b client =
    Inr \<lparr>statusCode = 200, headers = None,
          body = [(''message'', PyStr (''Hello World! Successfully read from S3 bucket: '' @ b)),
                  (''bucket'', PyStr b),
                  (''object_count'', PyInt (int (length entries))),
                  (''objects'', PyList (map object_summary_of entries)),
                  (''hello'', PyStr ''world'')]\<rparr>"
    using assms(3) extract_objects_entries [OF assms(4)] json_serializable_summaries [of entries]
    by (simp add: try_block_def json_dumps_def success_message_def)
  then show ?thesis
    using assms(1,2) by (simp add: lambda_handler_resolved list_objects_v2_kwargs_def)
qed

text \<open>The scenario of the test suite, and the empty bucket.\<close>

theorem listing_success_witness:
  "lambda_handler [''bucket_name'' \<mapsto> ''test-bucket''] None Map.empty two_files =
    (Inr \<lparr>statusCode = 200, headers = None,
          body = [(''message'', PyStr ''Hello World! Successfully read from S3 bucket: test-bucket''),
                  (''bucket'', PyStr ''test-bucket''),
                  (''object_count'', PyInt 2),
                  (''objects'',
                   PyList [PyDict [(''key'', PyStr ''file1.txt''), (''size'', PyInt 1024),
                                   (''last_modified'', PyStr ''2024-01-01T12:00:00'')],
                           PyDict [(''key'', PyStr ''file2.txt''), (''size'', PyInt 2048),
                                   (''last_modified'', PyStr ''2024-01-02T12:00:00'')]]),
                  (''hello'', PyStr ''world'')]\<rparr>,
     [[(''Bucket'', PyStr ''test-bucket''), (''MaxKeys'', PyInt 10)]])"
proof -
  have bucket: "bucket_name [''bucket_name'' \<mapsto> ''test-bucket''] Map.empty = Some ''test-bucket''"
    by (simp add: bucket_name_def py_or_def truthy_def)
  have nonempty: "''test-bucket'' \<noteq> []"
    by simp
  have reply: "two_files (list_objects_v2_kwargs ''test-bucket'') =
      Inr [(''IsTruncated'', PyBool False),
           (''Contents'', PyList [s3_entry ''file1.txt'' 1024 (noon 1),
                                  s3_entry ''file2.txt'' 2048 (noon 2)]),
           (''Name'', PyStr ''test-bucket'')]"
    by (simp add: two_files_def)
  have entries: "provider_entries
       [(''IsTruncated'', PyBool False),
        (''Contents'', PyList [s3_entry ''file1.txt'' 1024 (noon 1),
                               s3_entry ''file2.txt'' 2048 (noon 2)]),
        (''Name'', PyStr ''test-bucket'')] =
      Some [(''file1.txt'', 1024, noon 1), (''file2.txt'', 2048, noon 2)]"
    by (simp add: provider_entries_def summary_of_def s3_entry_def)
  show ?thesis
    using listing_success [where client = two_files and ctx = None, OF bucket nonempty reply entries]
    by (simp add: object_summary_of_def isoformat_noon_1 isoformat_noon_2)
qed

lemma empty_bucket:
  "lambda_handler [''bucket_name'' \<mapsto> ''empty-bucket''] None Map.empty (\<lambda>kwargs. Inr []) =
    (Inr \<lparr>statusCode = 200, headers = None,
          body = [(''message'', PyStr ''Hello World! Successfully read from S3 bucket: empty-bucket''),
                  (''bucket'', PyStr ''empty-bucket''),
                  (''object_count'', PyInt 0),
                  (''objects'', PyList []),
                  (''hello'', PyStr ''world'')]\<rparr>,
     [[(''Bucket'', PyStr ''empty-bucket''), (''MaxKeys'', PyInt 10)]])"
  by code_simp

text \<open>
  C3. The bucket name the handler uses is the request's \<^verbatim>\<open>bucket_name\<close> if present and
  non-empty, otherwise the variable \<^verbatim>\<open>S3_BUCKET_NAME\<close> of the environment. When neither
  yields a value (each is absent or empty) the handler returns status 400 with the message
  that no bucket name was provided and the \<^verbatim>\<open>hello\<close> marker, no other field, and calls
  the storage client not at all. In every other case it calls the storage client once, for
  the resolved bucket, and the status is not 400.
\<close>

theorem bucket_resolution:
  "bucket_name event environ = requested_or_default event environ \<and>
   (no_value (event ''bucket_name'') \<and> no_value (environ ''S3_BUCKET_NAME'') \<longrightarrow>
      lambda_handler event ctx environ client =
        (Inr \<lparr>statusCode = 400, headers = None,
              body = [(''message'', PyStr ''Error: No bucket name provided. Please specify bucket_name in event or S3_BUCKET_NAME environment variable.''),
                      (''hello'', PyStr ''world'')]\<rparr>,
         [])) \<and>
   (\<not> (no_value (event ''bucket_name'') \<and> no_value (environ ''S3_BUCKET_NAME'')) \<longrightarrow>
      (\<exists>b r. requested_or_default event environ = Some b \<and> b \<noteq> [] \<and>
         lambda_handler event ctx environ client =
           (Inr r, [[(''Bucket'', PyStr b), (''MaxKeys'', PyInt 10)]]) \<and>
         statusCode r \<noteq> 400))"
proof (intro conjI impI)
  show "bucket_name event environ = requested_or_default event environ"
    by (rule bucket_name_requested_or_default)
next
  assume "no_value (event ''bucket_name'') \<and> no_value (environ ''S3_BUCKET_NAME'')"
  then have "\<not> truthy (bucket_name event environ)"
    by (simp add: truthy_bucket_name)
  then show "lambda_handler event ctx environ client =
        (Inr \<lparr>statusCode = 400, headers = None,
              body = [(''message'', PyStr ''Error: No bucket name provided. Please specify bucket_name in event or S3_BUCKET_NAME environment variable.''),
                      (''hello'', PyStr ''world'')]\<rparr>,
         [])"
    by (simp add: lambda_handler_unresolved no_bucket_response_def)
next
  assume "\<not> (no_value (event ''bucket_name'') \<and> no_value (environ ''S3_BUCKET_NAME''))"
  then have "truthy (bucket_name event environ)"
    by (simp add: truthy_bucket_name)
  then obtain b where b: "bucket_name event environ = Some b" "b \<noteq> []"
    using truthy_cases by blast
  from resolved_status [OF b] obtain r where
    "lambda_handler event ctx environ client = (Inr r, [list_objects_v2_kwargs b])"
    "statusCode r \<noteq> 400"
    by blast
  with b show "\<exists>b r. requested_or_default event environ = Some b \<and> b \<noteq> [] \<and>
         lambda_handler event ctx environ client =
           (Inr r, [[(''Bucket'', PyStr b), (''MaxKeys'', PyInt 10)]]) \<and>
         statusCode r \<noteq> 400"
    by (auto simp: bucket_name_requested_or_default list_objects_v2_kwargs_def)
qed

text \<open>
  Neither source set: 400 and no call. An empty \<^verbatim>\<open>bucket_name\<close> with a default in the
  environment: one call for the default bucket.
\<close>

theorem bucket_resolution_witness:
  "lambda_handler Map.empty None Map.empty two_files =
     (Inr \<lparr>statusCode = 400, headers = None,
           body = [(''message'', PyStr ''Error: No bucket name provided. Please specify bucket_name in event or S3_BUCKET_NAME environment variable.''),
                   (''hello'', PyStr ''world'')]\<rparr>,
      []) \<and>
   (\<exists>r. lambda_handler [''bucket_name'' \<mapsto> ''''] None [''S3_BUCKET_NAME'' \<mapsto> ''test-bucket-env''] two_files =
           (Inr r, [[(''Bucket'', PyStr ''test-bucket-env''), (''MaxKeys'', PyInt 10)]]) \<and>
        statusCode r \<noteq> 400)"
proof
  have "no_value (Map.empty ''bucket_name'') \<and> no_value (Map.empty ''S3_BUCKET_NAME'')"
    by (simp add: no_value_def)
  then show "lambda_handler Map.empty None Map.empty two_files =
     (Inr \<lparr>statusCode = 400, headers = None,
           body = [(''message'', PyStr ''Error: No bucket name provided. Please specify bucket_name in event or S3_BUCKET_NAME environment variable.''),
                   (''hello'', PyStr ''world'')]\<rparr>,
      [])"
    using bucket_resolution [of Map.empty Map.empty None two_files] by blast
next
  have "\<not> (no_value ([''bucket_name'' \<mapsto> ''''] ''bucket_name'') \<and>
            no_value ([''S3_BUCKET_NAME'' \<mapsto> ''test-bucket-env''] ''S3_BUCKET_NAME''))"
    by (simp add: no_value_def)
  moreover have "requested_or_default [''bucket_name'' \<mapsto> ''''] [''S3_BUCKET_NAME'' \<mapsto> ''test-bucket-env''] =
      Some ''test-bucket-env''"
    by (simp add: requested_or_default_def)
  ultimately show "\<exists>r. lambda_handler [''bucket_name'' \<mapsto> ''''] None [''S3_BUCKET_NAME'' \<mapsto> ''test-bucket-env''] two_files =
           (Inr r, [[(''Bucket'', PyStr ''test-bucket-env''), (''MaxKeys'', PyInt 10)]]) \<and>
        statusCode r \<noteq> 400"
    using bucket_resolution [of "[''bucket_name'' \<mapsto> '''']" "[''S3_BUCKET_NAME'' \<mapsto> ''test-bucket-env'']" None two_files]
    by auto
qed

text \<open>
  C4. When the list call raises a \<open>ClientError\<close> with a code and a message, the handler
  returns status 500, a \<^verbatim>\<open>message\<close> that ends with the code, and \<^verbatim>\<open>error\<close> equal to the
  message of the provider; the \<^verbatim>\<open>message\<close> is never the one of the generic clause.
\<close>

theorem provider_error_response:
  assumes "bucket_name event environ = Some b" and "b \<noteq> []"
    and "client (list_objects_v2_kwargs b) = Inl (ClientError code msg)"
  shows "lambda_handler event ctx environ client =
    (Inr \<lparr>statusCode = 500, headers = None,
          body = [(''message'', PyStr (''Error reading from S3 bucket: '' @ code)),
                  (''error'', PyStr msg),
                  (''hello'', PyStr ''world'')]\<rparr>,
     [[(''Bucket'', PyStr b), (''MaxKeys'', PyInt 10)]]) \<and>
    ''Error reading from S3 bucket: '' @ code \<noteq> ''Unexpected error occurred''"
  using assms
  by (simp add: lambda_handler_resolved try_block_client_raises list_objects_v2_kwargs_def)

text \<open>
  The test's \<^verbatim>\<open>NoSuchBucket\<close>.
\<close>

theorem provider_error_response_witness:
  "lambda_handler [''bucket_name'' \<mapsto> ''test-bucket''] None Map.empty no_such_bucket =
    (Inr \<lparr>statusCode = 500, headers = None,
          body = [(''message'', PyStr ''Error reading from S3 bucket: NoSuchBucket''),
                  (''error'', PyStr ''The specified bucket does not exist''),
                  (''hello'', PyStr ''world'')]\<rparr>,
     [[(''Bucket'', PyStr ''test-bucket''), (''MaxKeys'', PyInt 10)]])"
proof -
  have bucket: "bucket_name [''bucket_name'' \<mapsto> ''test-bucket''] Map.empty = Some ''test-bucket''"
    by (simp add: bucket_name_def py_or_def truthy_def)
  have nonempty: "''test-bucket'' \<noteq> []"
    by simp
  have raised: "no_such_bucket (list_objects_v2_kwargs ''test-bucket'') =
      Inl (ClientError ''NoSuchBucket'' ''The specified bucket does not exist'')"
    by (simp add: no_such_bucket_def)
  show ?thesis
    using provider_error_response [where client = no_such_bucket and ctx = None,
        OF bucket nonempty raised]
    by simp
qed

text \<open>
  C5, as stated: the generic message is \<^verbatim>\<open>"unexpected error occurred"\<close>. The handler
  writes \<^verbatim>\<open>'Unexpected error occurred'\<close>, with a capital letter, and the test suite looks for
  exactly that text.
\<close>

theorem generic_message_counterexample:
  "response_field ''message''
     (fst (lambda_handler [''bucket_name'' \<mapsto> ''test-bucket''] None Map.empty unexpected_error)) \<noteq>
   Some (PyStr ''unexpected error occurred'')"
  by code_simp

text \<open>
  C5, amended. When the list call raises an exception that is not a \<open>ClientError\<close>,
  the handler returns status 500, the fixed \<^verbatim>\<open>message\<close> \<^verbatim>\<open>'Unexpected error occurred'\<close>, and
  \<^verbatim>\<open>error\<close> equal to the string description of the exception.
\<close>

theorem unexpected_error_response:
  assumes "bucket_name event environ = Some b" and "b \<noteq> []"
    and "client (list_objects_v2_kwargs b) = Inl (OtherException cls description)"
  shows "lambda_handler event ctx environ client =
    (Inr \<lparr>statusCode = 500, headers = None,
          body = [(''message'', PyStr ''Unexpected error occurred''),
                  (''error'', PyStr description),
                  (''hello'', PyStr ''world'')]\<rparr>,
     [[(''Bucket'', PyStr b), (''MaxKeys'', PyInt 10)]])"
  using assms
  by (simp add: lambda_handler_resolved try_block_client_raises list_objects_v2_kwargs_def)

text \<open>
  The test's \<^verbatim>\<open>Exception('Unexpected error')\<close>.
\<close>

theorem unexpected_error_response_witness:
  "lambda_handler [''bucket_name'' \<mapsto> ''test-bucket''] None Map.empty unexpected_error =
    (Inr \<lparr>statusCode = 500, headers = None,
          body = [(''message'', PyStr ''Unexpected error occurred''),
                  (''error'', PyStr ''Unexpected error''),
                  (''hello'', PyStr ''world'')]\<rparr>,
     [[(''Bucket'', PyStr ''test-bucket''), (''MaxKeys'', PyInt 10)]])"
proof -
  have bucket: "bucket_name [''bucket_name'' \<mapsto> ''test-bucket''] Map.empty = Some ''test-bucket''"
    by (simp add: bucket_name_def py_or_def truthy_def)
  have nonempty: "''test-bucket'' \<noteq> []"
    by simp
  have raised: "unexpected_error (list_objects_v2_kwargs ''test-bucket'') =
      Inl (OtherException ''Exception'' ''Unexpected error'')"
    by (simp add: unexpected_error_def)
  show ?thesis
    using unexpected_error_response [where client = unexpected_error and ctx = None,
        OF bucket nonempty raised]
    by simp
qed

text \<open>
  C7. The handler calls the storage client at most once, with \<^verbatim>\<open>MaxKeys\<close> 10 and no
  continuation token. The \<^verbatim>\<open>objects\<close> of a response has exactly as many entries as the
  reply of the client had. The provider of the specification lists up to the number of
  objects it is asked for: for every client that returns no more than ten entries to a
  request for ten, the \<^verbatim>\<open>objects\<close> of every invocation has at most ten entries.
\<close>

theorem listing_request_and_size:
  "(\<forall>kwargs \<in> set (snd (lambda_handler event ctx environ client)).
      map_of kwargs ''MaxKeys'' = Some (PyInt 10) \<and>
      map_of kwargs ''ContinuationToken'' = None) \<and>
   length (snd (lambda_handler event ctx environ client)) \<le> 1 \<and>
   (\<forall>objs. response_field ''objects'' (fst (lambda_handler event ctx environ client)) =
              Some (PyList objs) \<longrightarrow>
      (\<exists>b resp. snd (lambda_handler event ctx environ client) =
                   [[(''Bucket'', PyStr b), (''MaxKeys'', PyInt 10)]] \<and>
                 client [(''Bucket'', PyStr b), (''MaxKeys'', PyInt 10)] = Inr resp \<and>
                 length objs = reply_entries resp)) \<and>
   ((\<forall>kwargs resp. client kwargs = Inr resp \<longrightarrow>
        map_of kwargs ''MaxKeys'' = Some (PyInt 10) \<longrightarrow> reply_entries resp \<le> 10) \<longrightarrow>
      objects_returned (fst (lambda_handler event ctx environ client)) \<le> 10)"
proof (intro conjI allI impI)
  show "\<forall>kwargs \<in> set (snd (lambda_handler event ctx environ client)).
      map_of kwargs ''MaxKeys'' = Some (PyInt 10) \<and>
      map_of kwargs ''ContinuationToken'' = None"
    using lambda_handler_calls [of event ctx environ client]
    by (auto simp: list_objects_v2_kwargs_def)
next
  show "length (snd (lambda_handler event ctx environ client)) \<le> 1"
    using lambda_handler_calls [of event ctx environ client] by auto
next
  fix objs
  assume "response_field ''objects'' (fst (lambda_handler event ctx environ client)) =
              Some (PyList objs)"
  from lambda_handler_objects [OF this]
  show "\<exists>b resp. snd (lambda_handler event ctx environ client) =
                   [[(''Bucket'', PyStr b), (''MaxKeys'', PyInt 10)]] \<and>
                 client [(''Bucket'', PyStr b), (''MaxKeys'', PyInt 10)] = Inr resp \<and>
                 length objs = reply_entries resp"
    by (simp add: list_objects_v2_kwargs_def)
next
  assume honours: "\<forall>kwargs resp. client kwargs = Inr resp \<longrightarrow>
        map_of kwargs ''MaxKeys'' = Some (PyInt 10) \<longrightarrow> reply_entries resp \<le> 10"
  show "objects_returned (fst (lambda_handler event ctx environ client)) \<le> 10"
  proof (cases "response_field ''objects'' (fst (lambda_handler event ctx environ client))")
    case None
    then show ?thesis by (simp add: objects_returned_def)
  next
    case (Some v)
    show ?thesis
    proof (cases v)
      case (PyList objs)
      with Some lambda_handler_objects [of event ctx environ client objs]
      obtain b resp where "client (list_objects_v2_kwargs b) = Inr resp"
        "length objs = reply_entries resp"
        by blast
      moreover have "map_of (list_objects_v2_kwargs b) ''MaxKeys'' = Some (PyInt 10)"
        by (simp add: list_objects_v2_kwargs_def)
      ultimately have "length objs \<le> 10"
        using honours by force
      with Some PyList show ?thesis
        by (simp add: objects_returned_def)
    qed (use Some in \<open>simp_all add: objects_returned_def\<close>)
  qed
qed

text \<open>
  A client that honours \<^verbatim>\<open>MaxKeys\<close> on a bucket of twelve objects.
\<close>

theorem listing_request_and_size_witness:
  "objects_returned
     (fst (lambda_handler [''bucket_name'' \<mapsto> ''big-bucket''] None Map.empty first_of_twelve)) \<le> 10 \<and>
   snd (lambda_handler [''bucket_name'' \<mapsto> ''big-bucket''] None Map.empty first_of_twelve) =
     [[(''Bucket'', PyStr ''big-bucket''), (''MaxKeys'', PyInt 10)]]"
proof
  show "objects_returned
     (fst (lambda_handler [''bucket_name'' \<mapsto> ''big-bucket''] None Map.empty first_of_twelve)) \<le> 10"
    using listing_request_and_size [of "[''bucket_name'' \<mapsto> ''big-bucket'']" None Map.empty first_of_twelve]
      first_of_twelve_honours
    by blast
next
  show "snd (lambda_handler [''bucket_name'' \<mapsto> ''big-bucket''] None Map.empty first_of_twelve) =
     [[(''Bucket'', PyStr ''big-bucket''), (''MaxKeys'', PyInt 10)]]"
    by code_simp
qed

lemma ten_of_twelve:
  "objects_returned
     (fst (lambda_handler [''bucket_name'' \<mapsto> ''big-bucket''] None Map.empty first_of_twelve)) = 10"
  by code_simp

text \<open>
  C8, as stated: every response of the handler carries the header
  \<^verbatim>\<open>Content-Type: application/json\<close>. The dictionaries the bucket lister returns have the
  keys \<^verbatim>\<open>statusCode\<close> and \<^verbatim>\<open>body\<close> only: the successful listing has no such header.
\<close>

theorem content_type_counterexample:
  "response_header ''Content-Type''
     (fst (lambda_handler [''bucket_name'' \<mapsto> ''test-bucket''] None Map.empty two_files)) \<noteq>
   Some ''application/json''"
  by code_simp

text \<open>
  C8, amended. No response of the bucket lister has headers, on any path. The hello-world
  handler sets \<^verbatim>\<open>Content-Type: application/json\<close> and \<^verbatim>\<open>Access-Control-Allow-Origin: *\<close> on
  the one response it builds, unconditionally, and it returns that response whenever the
  context is falsy or has the attributes \<^verbatim>\<open>function_name\<close> and \<^verbatim>\<open>request_id\<close>. Neither
  handler reads a switch for the cross-origin header.
\<close>

theorem headers_of_the_handlers:
  "(\<exists>r. fst (lambda_handler event ctx environ client) = Inr r \<and> headers r = None) \<and>
   (\<forall>r. hello_lambda_handler event' ctx' now = Inr r \<longrightarrow>
      headers r = Some [(''Content-Type'', ''application/json''),
                        (''Access-Control-Allow-Origin'', ''*'')]) \<and>
   (ctx' = None \<or>
    (\<exists>c f i. ctx' = Some c \<and> map_of (attributes c) ''function_name'' = Some f \<and>
              map_of (attributes c) ''request_id'' = Some i) \<longrightarrow>
      (\<exists>r. hello_lambda_handler event' ctx' now = Inr r))"
proof (intro conjI allI impI)
  show "\<exists>r. fst (lambda_handler event ctx environ client) = Inr r \<and> headers r = None"
    by (rule lambda_handler_no_headers)
next
  fix r
  assume "hello_lambda_handler event' ctx' now = Inr r"
  then show "headers r = Some [(''Content-Type'', ''application/json''),
                        (''Access-Control-Allow-Origin'', ''*'')]"
    by (rule hello_lambda_handler_headers)
next
  assume "ctx' = None \<or>
    (\<exists>c f i. ctx' = Some c \<and> map_of (attributes c) ''function_name'' = Some f \<and>
              map_of (attributes c) ''request_id'' = Some i)"
  then show "\<exists>r. hello_lambda_handler event' ctx' now = Inr r"
  proof
    assume "ctx' = None"
    then show ?thesis
      using hello_lambda_handler_no_context [of event' now] by simp
  next
    assume "\<exists>c f i. ctx' = Some c \<and> map_of (attributes c) ''function_name'' = Some f \<and>
              map_of (attributes c) ''request_id'' = Some i"
    then obtain c f i where "ctx' = Some c"
      "map_of (attributes c) ''function_name'' = Some f"
      "map_of (attributes c) ''request_id'' = Some i"
      by blast
    then show ?thesis
      using hello_lambda_handler_with_context [of c f i event' now] by simp
  qed
qed

text \<open>
  The hello-world handler with the context of its own local test, beside the bucket
  lister on the scenario of the test suite.
\<close>

theorem headers_of_the_handlers_witness:
  "response_header ''Content-Type''
     (hello_lambda_handler [''name'' \<mapsto> ''GitHub User''] (Some mock_context) (noon 1)) =
     Some ''application/json'' \<and>
   response_header ''Access-Control-Allow-Origin''
     (hello_lambda_handler [''name'' \<mapsto> ''GitHub User''] (Some mock_context) (noon 1)) =
     Some ''*'' \<and>
   response_header ''Content-Type''
     (fst (lambda_handler [''bucket_name'' \<mapsto> ''test-bucket''] None Map.empty two_files)) = None"
proof -
  note inst = headers_of_the_handlers
      [of "[''bucket_name'' \<mapsto> ''test-bucket'']" None Map.empty two_files
          "[''name'' \<mapsto> ''GitHub User'']" "Some mock_context" "noon 1"]
  have ctx: "Some mock_context = None \<or>
     (\<exists>c f i. Some mock_context = Some c \<and>
          map_of (attributes c) ''function_name'' = Some f \<and>
          map_of (attributes c) ''request_id'' = Some i)"
    by (simp add: mock_context_def)
  from inst have "\<exists>r. hello_lambda_handler [''name'' \<mapsto> ''GitHub User''] (Some mock_context) (noon 1) = Inr r"
    using ctx by (elim conjE) (erule mp)
  then obtain r where
    r: "hello_lambda_handler [''name'' \<mapsto> ''GitHub User''] (Some mock_context) (noon 1) = Inr r"
    by (elim exE)
  from inst have "\<forall>r. hello_lambda_handler [''name'' \<mapsto> ''GitHub User''] (Some mock_context) (noon 1) = Inr r \<longrightarrow>
      headers r = Some [(''Content-Type'', ''application/json''),
                        (''Access-Control-Allow-Origin'', ''*'')]"
    by (elim conjE)
  with r have h: "headers r = Some [(''Content-Type'', ''application/json''),
                              (''Access-Control-Allow-Origin'', ''*'')]"
    by simp
  from inst have "\<exists>r. fst (lambda_handler [''bucket_name'' \<mapsto> ''test-bucket''] None Map.empty two_files) = Inr r \<and> headers r = None"
    by (elim conjE)
  then obtain r' where
    r': "fst (lambda_handler [''bucket_name'' \<mapsto> ''test-bucket''] None Map.empty two_files) = Inr r'"
       "headers r' = None"
    by (elim exE conjE)
  from r h r' show ?thesis
    by (simp add: response_header_def)
qed

text \<open>
  C10. The body of the response has the fields \<^verbatim>\<open>bucket\<close>, \<^verbatim>\<open>object_count\<close> and
  \<^verbatim>\<open>objects\<close> exactly when the status is 200. With any other status it has none of the
  three: the body of a 400 has the fields \<^verbatim>\<open>message\<close> and \<^verbatim>\<open>hello\<close> only, and the body of a
  500 has \<^verbatim>\<open>message\<close>, \<^verbatim>\<open>error\<close> and \<^verbatim>\<open>hello\<close> only.
\<close>

theorem manifest_fields_iff_success:
  "\<exists>r. fst (lambda_handler event ctx environ client) = Inr r \<and>
     ((statusCode r = 200) =
        (''bucket'' \<in> set (map fst (body r)) \<and> ''object_count'' \<in> set (map fst (body r)) \<and>
         ''objects'' \<in> set (map fst (body r)))) \<and>
     (statusCode r \<noteq> 200 \<longrightarrow>
        ''bucket'' \<notin> set (map fst (body r)) \<and> ''object_count'' \<notin> set (map fst (body r)) \<and>
        ''objects'' \<notin> set (map fst (body r))) \<and>
     (statusCode r = 400 \<longrightarrow> map fst (body r) = [''message'', ''hello'']) \<and>
     (statusCode r = 500 \<longrightarrow> map fst (body r) = [''message'', ''error'', ''hello''])"
proof -
  obtain r where r: "fst (lambda_handler event ctx environ client) = Inr r"
    and shape: "(statusCode r = 400 \<and> map fst (body r) = [''message'', ''hello'']) \<or>
      (statusCode r = 200 \<and>
         map fst (body r) = [''message'', ''bucket'', ''object_count'', ''objects'', ''hello'']) \<or>
      (statusCode r = 500 \<and> map fst (body r) = [''message'', ''error'', ''hello''])"
    using lambda_handler_shape [of event ctx environ client] by (elim exE conjE)
  from r manifest_fields_of_keys [OF shape] show ?thesis
    by (intro exI conjI) (assumption, (elim conjE, assumption)+)
qed

text \<open>
  The body of the response to \<^verbatim>\<open>NoSuchBucket\<close>.
\<close>

theorem manifest_fields_iff_success_witness:
  "\<exists>r. fst (lambda_handler [''bucket_name'' \<mapsto> ''test-bucket''] None Map.empty no_such_bucket) = Inr r \<and>
       statusCode r = 500 \<and> map fst (body r) = [''message'', ''error'', ''hello''] \<and>
       ''objects'' \<notin> set (map fst (body r))"
proof -
  have ev: "fst (lambda_handler [''bucket_name'' \<mapsto> ''test-bucket''] None Map.empty no_such_bucket) =
      Inr \<lparr>statusCode = 500, headers = None,
           body = [(''message'', PyStr ''Error reading from S3 bucket: NoSuchBucket''),
                   (''error'', PyStr ''The specified bucket does not exist''),
                   (''hello'', PyStr ''world'')]\<rparr>"
    by code_simp
  from manifest_fields_iff_success
      [of "[''bucket_name'' \<mapsto> ''test-bucket'']" None Map.empty no_such_bucket]
  obtain r where
    r: "fst (lambda_handler [''bucket_name'' \<mapsto> ''test-bucket''] None Map.empty no_such_bucket) = Inr r"
    and non200: "statusCode r \<noteq> 200 \<longrightarrow>
        ''bucket'' \<notin> set (map fst (body r)) \<and> ''object_count'' \<notin> set (map fst (body r)) \<and>
        ''objects'' \<notin> set (map fst (body r))"
    and keys: "statusCode r = 500 \<longrightarrow> map fst (body r) = [''message'', ''error'', ''hello'']"
    by (elim exE conjE)
  from r ev have "r = \<lparr>statusCode = 500, headers = None,
           body = [(''message'', PyStr ''Error reading from S3 bucket: NoSuchBucket''),
                   (''error'', PyStr ''The specified bucket does not exist''),
                   (''hello'', PyStr ''world'')]\<rparr>"
    by simp
  then have status: "statusCode r = 500"
    by (simp only: response.simps)
  with keys have k: "map fst (body r) = [''message'', ''error'', ''hello'']"
    by simp
  from status non200 have "''objects'' \<notin> set (map fst (body r))"
    by simp
  with r status k show ?thesis
    by (intro exI conjI)
qed

end
